theory Spec2Isabelle
  imports Complex_Main
begin

section \<open>Common data\<close>

text \<open>
  Python ints are unbounded integers. The arguments and the result of the position sizer
  are IEEE doubles, modelled below with their rounding, overflow, infinities and NaN. The
  order manager computes in \<open>Decimal\<close> with 28 significant digits, modelled below with its
  rounding. Prices, quantities and PnL elsewhere are read as the real numbers they denote.
  The exceptions that travel through the modelled code:
  \<^item> \<open>BinanceAPIError\<close>: raised by the REST client on an error response, and by the
    order manager on a rounded quantity of zero;
  \<^item> \<open>ValueError\<close>: raised by the kline normaliser and by the protection manager on a
    missing order id;
  \<^item> \<open>RequestException\<close>: a transport failure that outlived the client's retries;
  \<^item> \<open>DecimalException\<close>: \<open>decimal.DivisionByZero\<close> or \<open>decimal.InvalidOperation\<close>, on a
    zero step or a quotient of more than 28 digits;
  \<^item> \<open>ZeroDivisionError\<close>: float division by zero;
  \<^item> \<open>TimestampOutOfRange\<close>: \<open>datetime.utcfromtimestamp\<close> outside the years 1 to 9999.
\<close>

datatype exc =
    BinanceAPIError
  | ValueError
  | RequestException
  | DecimalException
  | ZeroDivisionError
  | TimestampOutOfRange

section \<open>Number representations\<close>

text \<open>Rounding to the nearest integer, ties to the even one.\<close>

definition round_half_even :: "real \<Rightarrow> int" where
  "round_half_even r =
     (let f = \<lfloor>r\<rfloor>
      in if r - of_int f < 1 / 2 then f
         else if r - of_int f > 1 / 2 then f + 1
         else if even f then f else f + 1)"

subsection \<open>IEEE doubles, as Python's \<open>float\<close>\<close>

text \<open>
  A float is a finite real, an infinity or NaN. The two zeros are one value: they compare
  equal, and no result below depends on the sign of a zero. \<open>round_double\<close> is rounding to
  the nearest double, ties to even: 53 significant bits, subnormals below \<open>2^-1022\<close> on the
  grid of \<open>2^-1074\<close>, and overflow to an infinity from \<open>2^1024\<close> on.
\<close>

datatype pyfloat = Finite real | PosInf | NegInf | NotANumber

definition pow2 :: "int \<Rightarrow> real" where
  "pow2 k = (if 0 \<le> k then 2 ^ nat k else 1 / 2 ^ nat (- k))"

definition round_double :: "real \<Rightarrow> pyfloat" where
  "round_double x =
     (if x = 0 then Finite 0
      else
        let e = (if \<bar>x\<bar> < pow2 (- 1022) then - 1022 else \<lfloor>log 2 \<bar>x\<bar>\<rfloor>);
            ulp = pow2 (e - 52);
            y = of_int (round_half_even (x / ulp)) * ulp
        in if pow2 1024 \<le> \<bar>y\<bar> then (if 0 < x then PosInf else NegInf)
           else Finite y)"

text \<open>Multiplication does not raise; it overflows to an infinity and underflows to zero.\<close>

fun fmul :: "pyfloat \<Rightarrow> pyfloat \<Rightarrow> pyfloat" where
  "fmul NotANumber y = NotANumber"
| "fmul x NotANumber = NotANumber"
| "fmul (Finite a) (Finite b) = round_double (a * b)"
| "fmul (Finite a) PosInf = (if a = 0 then NotANumber else if 0 < a then PosInf else NegInf)"
| "fmul (Finite a) NegInf = (if a = 0 then NotANumber else if 0 < a then NegInf else PosInf)"
| "fmul PosInf (Finite b) = (if b = 0 then NotANumber else if 0 < b then PosInf else NegInf)"
| "fmul NegInf (Finite b) = (if b = 0 then NotANumber else if 0 < b then NegInf else PosInf)"
| "fmul PosInf PosInf = PosInf"
| "fmul PosInf NegInf = NegInf"
| "fmul NegInf PosInf = NegInf"
| "fmul NegInf NegInf = PosInf"

text \<open>Division raises \<open>ZeroDivisionError\<close> on a zero divisor, whatever the dividend.\<close>

fun fdiv :: "pyfloat \<Rightarrow> pyfloat \<Rightarrow> exc + pyfloat" where
  "fdiv x (Finite b) =
     (if b = 0 then Inl ZeroDivisionError
      else case x of
             Finite a \<Rightarrow> Inr (round_double (a / b))
           | PosInf \<Rightarrow> Inr (if 0 < b then PosInf else NegInf)
           | NegInf \<Rightarrow> Inr (if 0 < b then NegInf else PosInf)
           | NotANumber \<Rightarrow> Inr NotANumber)"
| "fdiv x NotANumber = Inr NotANumber"
| "fdiv (Finite a) y = Inr (Finite 0)"
| "fdiv x y = Inr NotANumber"

text \<open>The comparisons \<open>x <= 0\<close> and \<open>x > 0\<close>; both are false of NaN.\<close>

definition fle0 :: "pyfloat \<Rightarrow> bool" where
  "fle0 x = (case x of Finite a \<Rightarrow> a \<le> 0 | NegInf \<Rightarrow> True | PosInf \<Rightarrow> False
             | NotANumber \<Rightarrow> False)"

definition fgt0 :: "pyfloat \<Rightarrow> bool" where
  "fgt0 x = (case x of Finite a \<Rightarrow> 0 < a | PosInf \<Rightarrow> True | NegInf \<Rightarrow> False
             | NotANumber \<Rightarrow> False)"

subsection \<open>\<open>Decimal\<close> with the context precision of 28 digits\<close>

text \<open>
  A finite \<open>Decimal\<close> is read as the real it denotes. \<open>dec_round\<close> rounds a real to 28
  significant decimal digits, ties to even, as the context does with the result of an
  arithmetic operation. The exponent limits of the context are not modelled.
\<close>

definition pow10 :: "int \<Rightarrow> real" where
  "pow10 k = (if 0 \<le> k then 10 ^ nat k else 1 / 10 ^ nat (- k))"

definition dec_round :: "real \<Rightarrow> real" where
  "dec_round x =
     (if x = 0 then 0
      else let quantum = pow10 (\<lfloor>log 10 \<bar>x\<bar>\<rfloor> - 27)
           in of_int (round_half_even (x / quantum)) * quantum)"

definition dec_mul :: "real \<Rightarrow> real \<Rightarrow> real" where
  "dec_mul x y = dec_round (x * y)"

section \<open>risk/position\_sizer.py\<close>

definition compute_position_size ::
  "pyfloat \<Rightarrow> pyfloat \<Rightarrow> pyfloat \<Rightarrow> pyfloat \<Rightarrow> exc + pyfloat option" where
  "compute_position_size equity risk_percent entry_price sl_percent =
     (if fle0 equity \<or> fle0 risk_percent \<or> fle0 entry_price \<or> fle0 sl_percent
      then Inr None
      else case fdiv (fmul equity risk_percent) (fmul entry_price sl_percent) of
             Inl e \<Rightarrow> Inl e
           | Inr qty \<Rightarrow> Inr (if fgt0 qty then Some qty else None))"

section \<open>config/risk.py\<close>

definition RISK_PERCENT :: real where "RISK_PERCENT = 1 / 1000"
definition SL_PERCENT :: real where "SL_PERCENT = 1 / 100"
definition TP_PERCENT :: real where "TP_PERCENT = 1 / 100"
definition MAX_DAILY_LOSS :: "real option" where "MAX_DAILY_LOSS = None"
definition MAX_TRADES_PER_DAY :: "int option" where "MAX_TRADES_PER_DAY = None"
definition MAX_TRADES_PER_HOUR :: "int option" where "MAX_TRADES_PER_HOUR = None"

section \<open>UTC calendar arithmetic used by the trade limits\<close>

text \<open>
  \<open>datetime.utcfromtimestamp(now_ms / 1000.0)\<close> of the standard library, for an integer
  millisecond timestamp: the proleptic Gregorian date and the hour of the day. The
  conversion from a day ordinal (day 1 is 0001-01-01) follows the library's
  \<open>_ord2ymd\<close>; outside the years 1 to 9999 the library raises.
\<close>

record date =
  year :: int
  month :: int
  day :: int

record datetime =
  dt_date :: date
  hour :: int

definition is_leap :: "int \<Rightarrow> bool" where
  "is_leap y = (y mod 4 = 0 \<and> (y mod 100 \<noteq> 0 \<or> y mod 400 = 0))"

definition DAYS_IN_MONTH :: "int list" where
  "DAYS_IN_MONTH = [31, 28, 31, 30, 31, 30, 31, 31, 30, 31, 30, 31]"

definition DAYS_BEFORE_MONTH :: "int list" where
  "DAYS_BEFORE_MONTH = [0, 31, 59, 90, 120, 151, 181, 212, 243, 273, 304, 334]"

definition days_before_month :: "int \<Rightarrow> int \<Rightarrow> int" where
  "days_before_month y m =
     DAYS_BEFORE_MONTH ! nat (m - 1) + (if m > 2 \<and> is_leap y then 1 else 0)"

definition ord2ymd :: "int \<Rightarrow> date" where
  "ord2ymd ordinal =
     (let n0 = ordinal - 1;
          n400 = n0 div 146097; n1' = n0 mod 146097;
          n100 = n1' div 36524; n2' = n1' mod 36524;
          n4 = n2' div 1461; n3' = n2' mod 1461;
          n1 = n3' div 365; n = n3' mod 365;
          y = n400 * 400 + 1 + n100 * 100 + n4 * 4 + n1
      in if n1 = 4 \<or> n100 = 4 then \<lparr>year = y - 1, month = 12, day = 31\<rparr>
         else
           let leapyear = (n1 = 3 \<and> (n4 \<noteq> 24 \<or> n100 = 3));
               m0 = (n + 50) div 32;
               preceding0 = DAYS_BEFORE_MONTH ! nat (m0 - 1)
                            + (if m0 > 2 \<and> leapyear then 1 else 0);
               m = (if preceding0 > n then m0 - 1 else m0);
               preceding =
                 (if preceding0 > n
                  then preceding0 - (DAYS_IN_MONTH ! nat (m - 1)
                                     + (if m = 2 \<and> leapyear then 1 else 0))
                  else preceding0)
           in \<lparr>year = y, month = m, day = n - preceding + 1\<rparr>)"

definition utcfromtimestamp :: "int \<Rightarrow> exc + datetime" where
  "utcfromtimestamp now_ms =
     (let secs = now_ms div 1000;
          ordinal = secs div 86400 + 719163
      in if ordinal < 1 \<or> 3652059 < ordinal then Inl TimestampOutOfRange
         else Inr \<lparr>dt_date = ord2ymd ordinal, hour = (secs mod 86400) div 3600\<rparr>)"

definition tm_yday :: "datetime \<Rightarrow> int" where
  "tm_yday d = days_before_month (year (dt_date d)) (month (dt_date d)) + day (dt_date d)"

section \<open>risk/trade\_limits.py\<close>

record trade_limits =
  daily_trades :: int
  hourly_trades :: int
  daily_loss :: real
  current_day :: date
  current_hour_key :: int
  max_daily_loss :: "real option"
  max_trades_per_day :: "int option"
  max_trades_per_hour :: "int option"

definition hour_key :: "datetime \<Rightarrow> int" where
  "hour_key dt_obj = year (dt_date dt_obj) * 10000 + tm_yday dt_obj * 24 + hour dt_obj"

text \<open>The constructor reads the clock (\<open>utcnow\<close>); the reading is its argument.\<close>

definition TradeLimits_init :: "datetime \<Rightarrow> trade_limits" where
  "TradeLimits_init utcnow =
     \<lparr>daily_trades = 0, hourly_trades = 0, daily_loss = 0,
      current_day = dt_date utcnow, current_hour_key = hour_key utcnow,
      max_daily_loss = MAX_DAILY_LOSS, max_trades_per_day = MAX_TRADES_PER_DAY,
      max_trades_per_hour = MAX_TRADES_PER_HOUR\<rparr>"

definition reset_if_needed :: "int \<Rightarrow> trade_limits \<Rightarrow> exc + trade_limits" where
  "reset_if_needed now_ms tlim =
     (case utcfromtimestamp now_ms of
        Inl e \<Rightarrow> Inl e
      | Inr now \<Rightarrow>
          let d = dt_date now;
              hk = hour_key now;
              tlim1 = (if d \<noteq> current_day tlim
                     then tlim\<lparr>daily_trades := 0, daily_loss := 0, current_day := d\<rparr>
                     else tlim);
              tlim2 = (if hk \<noteq> current_hour_key tlim1
                     then tlim1\<lparr>hourly_trades := 0, current_hour_key := hk\<rparr>
                     else tlim1)
          in Inr tlim2)"

definition record_trade :: "real \<Rightarrow> int \<Rightarrow> trade_limits \<Rightarrow> exc + trade_limits" where
  "record_trade pnl now_ms tlim =
     (case reset_if_needed now_ms tlim of
        Inl e \<Rightarrow> Inl e
      | Inr tlim1 \<Rightarrow>
          Inr (tlim1\<lparr>daily_trades := daily_trades tlim1 + 1,
                    hourly_trades := hourly_trades tlim1 + 1,
                    daily_loss := (if pnl < 0 then daily_loss tlim1 + pnl
                                   else daily_loss tlim1)\<rparr>))"

definition limits_exceeded :: "trade_limits \<Rightarrow> bool" where
  "limits_exceeded tlim =
     (if (case max_daily_loss tlim of None \<Rightarrow> False
          | Some m \<Rightarrow> daily_loss tlim \<le> - \<bar>m\<bar>) then True
      else if (case max_trades_per_day tlim of None \<Rightarrow> False
               | Some m \<Rightarrow> daily_trades tlim > m) then True
      else if (case max_trades_per_hour tlim of None \<Rightarrow> False
               | Some m \<Rightarrow> hourly_trades tlim > m) then True
      else False)"


section \<open>risk/kill\_switch.py\<close>

record kill_switch =
  is_trading_allowed :: bool

definition KillSwitch_init :: kill_switch where
  "KillSwitch_init = \<lparr>is_trading_allowed = True\<rparr>"

definition evaluate :: "trade_limits \<Rightarrow> kill_switch \<Rightarrow> kill_switch" where
  "evaluate limits ks =
     (if limits_exceeded limits then ks\<lparr>is_trading_allowed := False\<rparr> else ks)"

definition reset_daily :: "kill_switch \<Rightarrow> kill_switch" where
  "reset_daily ks = ks\<lparr>is_trading_allowed := True\<rparr>"


section \<open>exchange/order\_manager.py: rounding and market orders\<close>

text \<open>
  \<open>Decimal.__floordiv__\<close> returns the integer part of the quotient, truncated towards
  zero. It raises on a zero divisor, and when the integer quotient has more digits than
  the precision, 28, that the constructor of the order manager sets.
\<close>

definition dec_floordiv :: "real \<Rightarrow> real \<Rightarrow> exc + real" where
  "dec_floordiv x y =
     (if y = 0 then Inl DecimalException
      else
        let k = (if 0 \<le> x / y then \<lfloor>x / y\<rfloor> else \<lceil>x / y\<rceil>)
        in if 10 ^ 28 \<le> \<bar>k\<bar> then Inl DecimalException
           else Inr (of_int k))"

text \<open>The cached per-symbol filters that \<open>_load_filters\<close> returns.\<close>

record symbol_filters =
  tickSize :: real
  stepSize :: real

text \<open>
  \<open>(Decimal(str(x)) // step) * step\<close>: \<open>x\<close> is the decimal that \<open>str\<close> prints, the product is
  rounded to the precision, and the value is what is handed to \<open>float\<close>.
\<close>

definition round_price :: "symbol_filters \<Rightarrow> real \<Rightarrow> exc + real" where
  "round_price filt price =
     (case dec_floordiv price (tickSize filt) of
        Inl e \<Rightarrow> Inl e
      | Inr k \<Rightarrow> Inr (dec_mul k (tickSize filt)))"

definition round_qty :: "symbol_filters \<Rightarrow> real \<Rightarrow> exc + real" where
  "round_qty filt qty =
     (case dec_floordiv qty (stepSize filt) of
        Inl e \<Rightarrow> Inl e
      | Inr k \<Rightarrow> Inr (dec_mul k (stepSize filt)))"


section \<open>position/position.py and position/tracker.py\<close>

record position =
  symbol :: string
  side :: string
  quantity :: real
  entry_price :: real
  entry_time :: int

text \<open>
  One element of the \<open>positions\<close> list of the account information. A field is \<open>None\<close>
  when the key is absent; the code reads each with \<open>dict.get\<close> and a default.
\<close>

record position_entry =
  pe_symbol :: "string option"
  positionAmt :: "real option"
  entryPrice :: "real option"
  updateTime :: "int option"

record account_info =
  positions :: "position_entry list option"

record position_tracker =
  tracker_symbol :: string
  tracker_position :: "position option"

definition get_or :: "'a option \<Rightarrow> 'a \<Rightarrow> 'a" where
  "get_or v dflt = (case v of None \<Rightarrow> dflt | Some x \<Rightarrow> x)"

text \<open>The loop over the remote positions: the first entry of the symbol with a non-zero amount.\<close>

fun find_remote :: "string \<Rightarrow> position_entry list \<Rightarrow> position option" where
  "find_remote smb [] = None"
| "find_remote smb (pos # rest) =
     (if pe_symbol pos \<noteq> Some smb then find_remote smb rest
      else
        let amt = get_or (positionAmt pos) 0
        in if amt = 0 then find_remote smb rest
           else Some \<lparr>symbol = smb,
                      side = (if amt > 0 then ''LONG'' else ''SHORT''),
                      quantity = \<bar>amt\<bar>,
                      entry_price = get_or (entryPrice pos) 0,
                      entry_time = get_or (updateTime pos) 0\<rparr>)"

definition has_open_position :: "position_tracker \<Rightarrow> bool" where
  "has_open_position t =
     (case tracker_position t of None \<Rightarrow> False | Some p \<Rightarrow> quantity p > 0)"

definition set_position :: "position \<Rightarrow> position_tracker \<Rightarrow> position_tracker" where
  "set_position p t = t\<lparr>tracker_position := Some p\<rparr>"

definition clear_position :: "position_tracker \<Rightarrow> position_tracker" where
  "clear_position t = t\<lparr>tracker_position := None\<rparr>"

text \<open>
  \<open>sync_from_exchange\<close> takes the outcome of \<open>client.get_account_info()\<close> and returns the
  exception that leaves the call (\<open>None\<close> for a normal return) with the tracker after it.
  Only \<open>BinanceAPIError\<close> is caught.
\<close>

definition sync_from_exchange ::
  "exc + account_info \<Rightarrow> position_tracker \<Rightarrow> exc option \<times> position_tracker" where
  "sync_from_exchange response t =
     (case response of
        Inl e \<Rightarrow> (if e = BinanceAPIError then (None, t) else (Some e, t))
      | Inr info \<Rightarrow>
          (case (find_remote (tracker_symbol t) (get_or (positions info) []),
                 tracker_position t) of
             (Some remote, None) \<Rightarrow> (None, t\<lparr>tracker_position := Some remote\<rparr>)
           | (Some remote, Some loc) \<Rightarrow>
               if side loc \<noteq> side remote
                  \<or> \<bar>quantity loc - quantity remote\<bar> > 1 / 10 ^ 8
                  \<or> \<bar>entry_price loc - entry_price remote\<bar> > 1 / 10 ^ 8
               then (None, t\<lparr>tracker_position := Some remote\<rparr>)
               else (None, t)
           | (None, _) \<Rightarrow> (None, t)))"

section \<open>execution/tp\_sl.py\<close>

text \<open>
  The exchange as one \<open>sync\<close> call sees it: what \<open>get_account_info\<close>, the two placement
  calls and \<open>cancel_order\<close> answer (\<open>Inl\<close>: the call raises), and the cached filters.
  An order response carries its \<open>orderId\<close>, \<open>None\<close> when the key is absent.
\<close>

record order_response =
  orderId :: "int option"

record exchange =
  account_info_result :: "exc + account_info"
  take_profit_result :: "exc + order_response"
  stop_loss_result :: "exc + order_response"
  cancel_result :: "int \<Rightarrow> exc option"
  filters :: symbol_filters

text \<open>The order requests that reach the REST client, in the order they are sent.\<close>

datatype order_call =
    CancelOrder string int
  | PlaceTakeProfit string string real real
  | PlaceStopLoss string string real real

record tpsl_manager =
  tp_order_id :: "int option"
  sl_order_id :: "int option"
  is_protected :: bool
  tracker :: position_tracker

definition TpSlManager_init :: "position_tracker \<Rightarrow> tpsl_manager" where
  "TpSlManager_init t =
     \<lparr>tp_order_id = None, sl_order_id = None, is_protected = False, tracker = t\<rparr>"

text \<open>Python truthiness of an optional integer: \<open>None\<close> and \<open>0\<close> are false.\<close>

definition truthy_id :: "int option \<Rightarrow> bool" where
  "truthy_id v = (case v of None \<Rightarrow> False | Some i \<Rightarrow> i \<noteq> 0)"

definition om_place_take_profit ::
  "exchange \<Rightarrow> string \<Rightarrow> string \<Rightarrow> real \<Rightarrow> real \<Rightarrow> (exc + order_response) \<times> order_call list" where
  "om_place_take_profit ex smb side_str quantity_in stop_price =
     (case round_qty (filters ex) quantity_in of
        Inl e \<Rightarrow> (Inl e, [])
      | Inr qty \<Rightarrow>
          (case round_price (filters ex) stop_price of
             Inl e \<Rightarrow> (Inl e, [])
           | Inr price \<Rightarrow>
               if qty \<le> 0 then (Inl BinanceAPIError, [])
               else (take_profit_result ex, [PlaceTakeProfit smb side_str qty price])))"

definition om_place_stop_loss ::
  "exchange \<Rightarrow> string \<Rightarrow> string \<Rightarrow> real \<Rightarrow> real \<Rightarrow> (exc + order_response) \<times> order_call list" where
  "om_place_stop_loss ex smb side_str quantity_in stop_price =
     (case round_qty (filters ex) quantity_in of
        Inl e \<Rightarrow> (Inl e, [])
      | Inr qty \<Rightarrow>
          (case round_price (filters ex) stop_price of
             Inl e \<Rightarrow> (Inl e, [])
           | Inr price \<Rightarrow>
               if qty \<le> 0 then (Inl BinanceAPIError, [])
               else (stop_loss_result ex, [PlaceStopLoss smb side_str qty price])))"

definition compute_prices :: "real \<Rightarrow> string \<Rightarrow> real \<times> real" where
  "compute_prices entry side_str =
     (if side_str = ''LONG''
      then (entry * (1 + TP_PERCENT), entry * (1 - SL_PERCENT))
      else (entry * (1 - TP_PERCENT), entry * (1 + SL_PERCENT)))"

text \<open>
  One leg of \<open>_cancel_outstanding\<close>: the cancel request is sent when the id is truthy; a
  \<open>BinanceAPIError\<close> is caught and logged, any other exception leaves the method.
\<close>

definition cancel_leg :: "exchange \<Rightarrow> string \<Rightarrow> int option \<Rightarrow> exc option \<times> order_call list" where
  "cancel_leg ex smb oid =
     (case oid of
        None \<Rightarrow> (None, [])
      | Some i \<Rightarrow>
          if i = 0 then (None, [])
          else (case cancel_result ex i of
                  None \<Rightarrow> (None, [CancelOrder smb i])
                | Some e \<Rightarrow>
                    if e = BinanceAPIError then (None, [CancelOrder smb i])
                    else (Some e, [CancelOrder smb i])))"

definition cancel_outstanding ::
  "exchange \<Rightarrow> tpsl_manager \<Rightarrow> exc option \<times> tpsl_manager \<times> order_call list" where
  "cancel_outstanding ex s =
     (case cancel_leg ex (tracker_symbol (tracker s)) (tp_order_id s) of
        (Some e, calls1) \<Rightarrow> (Some e, s, calls1)
      | (None, calls1) \<Rightarrow>
          (case cancel_leg ex (tracker_symbol (tracker s)) (sl_order_id s) of
             (Some e, calls2) \<Rightarrow> (Some e, s, calls1 @ calls2)
           | (None, calls2) \<Rightarrow>
               (None,
                s\<lparr>tp_order_id := None, sl_order_id := None, is_protected := False\<rparr>,
                calls1 @ calls2)))"

text \<open>The body of the \<open>try\<close> block of \<open>_place_protection\<close>.\<close>

definition place_legs ::
  "exchange \<Rightarrow> position \<Rightarrow> tpsl_manager \<Rightarrow> exc option \<times> tpsl_manager \<times> order_call list" where
  "place_legs ex pos s =
     (let (tp_price, sl_price) = compute_prices (entry_price pos) (side pos);
          side_to_close = (if side pos = ''LONG'' then ''SELL'' else ''BUY'')
      in case om_place_take_profit ex (symbol pos) side_to_close (quantity pos) tp_price of
           (Inl e, calls1) \<Rightarrow> (Some e, s, calls1)
         | (Inr tp_order, calls1) \<Rightarrow>
             if \<not> truthy_id (orderId tp_order) then (Some ValueError, s, calls1)
             else
               let s1 = s\<lparr>tp_order_id := orderId tp_order\<rparr>
               in case om_place_stop_loss ex (symbol pos) side_to_close (quantity pos)
                         sl_price of
                    (Inl e, calls2) \<Rightarrow> (Some e, s1, calls1 @ calls2)
                  | (Inr sl_order, calls2) \<Rightarrow>
                      if \<not> truthy_id (orderId sl_order)
                      then (Some ValueError, s1, calls1 @ calls2)
                      else (None, s1\<lparr>sl_order_id := orderId sl_order\<rparr>, calls1 @ calls2))"

definition place_protection ::
  "exchange \<Rightarrow> position \<Rightarrow> tpsl_manager \<Rightarrow> exc option \<times> tpsl_manager \<times> order_call list" where
  "place_protection ex pos s =
     (case place_legs ex pos s of
        (None, s1, calls1) \<Rightarrow> (None, s1, calls1)
      | (Some e, s1, calls1) \<Rightarrow>
          if e = ValueError \<or> e = BinanceAPIError
          then (case cancel_outstanding ex s1 of
                  (Some e', s2, calls2) \<Rightarrow> (Some e', s2, calls1 @ calls2)
                | (None, s2, calls2) \<Rightarrow>
                    (None, s2\<lparr>is_protected := False\<rparr>, calls1 @ calls2))
          else (Some e, s1, calls1))"

text \<open>
  \<open>_fetch_remote_position\<close> returns the position it found (\<open>Inr\<close>) or lets a
  non-API exception through (\<open>Inl\<close>), together with the manager after it.
\<close>

definition fetch_remote_position ::
  "exchange \<Rightarrow> tpsl_manager \<Rightarrow> (exc + position option) \<times> tpsl_manager" where
  "fetch_remote_position ex s =
     (case account_info_result ex of
        Inl e \<Rightarrow>
          if e = BinanceAPIError then (Inr (tracker_position (tracker s)), s)
          else (Inl e, s)
      | Inr info \<Rightarrow>
          (case find_remote (tracker_symbol (tracker s)) (get_or (positions info) []) of
             Some remote \<Rightarrow> (Inr (Some remote), s\<lparr>tracker := set_position remote (tracker s)\<rparr>)
           | None \<Rightarrow> (Inr None, s\<lparr>is_protected := False\<rparr>)))"

definition sync ::
  "exchange \<Rightarrow> tpsl_manager \<Rightarrow> exc option \<times> tpsl_manager \<times> order_call list" where
  "sync ex s =
     (case fetch_remote_position ex s of
        (Inl e, s0) \<Rightarrow> (Some e, s0, [])
      | (Inr None, s0) \<Rightarrow>
          (case cancel_outstanding ex s0 of
             (Some e, s1, calls1) \<Rightarrow> (Some e, s1, calls1)
           | (None, s1, calls1) \<Rightarrow>
               (None,
                s1\<lparr>tracker := clear_position (tracker s1), is_protected := False\<rparr>,
                calls1))
      | (Inr (Some pos), s0) \<Rightarrow>
          if \<not> is_protected s0 then
            (case cancel_outstanding ex s0 of
               (Some e, s1, calls1) \<Rightarrow> (Some e, s1, calls1)
             | (None, s1, calls1) \<Rightarrow>
                 (case place_protection ex pos s1 of
                    (Some e, s2, calls2) \<Rightarrow> (Some e, s2, calls1 @ calls2)
                  | (None, s2, calls2) \<Rightarrow>
                      (None, s2\<lparr>is_protected := True\<rparr>, calls1 @ calls2)))
          else (None, s0, []))"

section \<open>exchange/market\_data.py\<close>

datatype interval = I1m | I5m

definition INTERVAL_SECONDS :: "interval \<Rightarrow> int" where
  "INTERVAL_SECONDS i = (case i of I1m \<Rightarrow> 60 | I5m \<Rightarrow> 300)"

text \<open>
  The decoded JSON answer of \<open>get_klines\<close>: either not a list at all, or a list of
  entries, each of which is a kline (open time, open, high, low, close, volume, close
  time) or something that is not a list of at least seven fields.
\<close>

datatype raw_kline =
    MalformedEntry
  | Kline int real real real real real int

datatype klines_payload =
    NotAList
  | KlineList "raw_kline list"

record candles =
  c_open :: "real list"
  c_high :: "real list"
  c_low :: "real list"
  c_close :: "real list"
  c_volume :: "real list"
  c_timestamp :: "int list"

type_synonym kline_row = "int \<times> real \<times> real \<times> real \<times> real \<times> real \<times> int"

definition row_open_time :: "kline_row \<Rightarrow> int" where
  "row_open_time r = fst r"

definition row_close_time :: "kline_row \<Rightarrow> int" where
  "row_close_time r = snd (snd (snd (snd (snd (snd r)))))"

text \<open>The loop over the entries: the first malformed entry raises.\<close>

fun parse_klines :: "raw_kline list \<Rightarrow> exc + kline_row list" where
  "parse_klines [] = Inr []"
| "parse_klines (MalformedEntry # rest) = Inl ValueError"
| "parse_klines (Kline open_time op hi lo cl vol close_time # rest) =
     (case parse_klines rest of
        Inl e \<Rightarrow> Inl e
      | Inr rows \<Rightarrow> Inr ((open_time, op, hi, lo, cl, vol, close_time) # rows))"

fun validate_sequence :: "int list \<Rightarrow> int \<Rightarrow> exc option" where
  "validate_sequence (prev # cur # rest) interval_ms =
     (if cur \<noteq> prev + interval_ms then Some ValueError
      else validate_sequence (cur # rest) interval_ms)"
| "validate_sequence open_times interval_ms = None"

definition is_closed :: "int \<Rightarrow> int \<Rightarrow> int \<Rightarrow> bool" where
  "is_closed last_close_time now_ms safety_margin_ms =
     (last_close_time < now_ms - safety_margin_ms)"

definition candles_of :: "kline_row list \<Rightarrow> candles" where
  "candles_of rows =
     \<lparr>c_open = map (\<lambda>(ot, op, hi, lo, cl, vol, ct). op) rows,
      c_high = map (\<lambda>(ot, op, hi, lo, cl, vol, ct). hi) rows,
      c_low = map (\<lambda>(ot, op, hi, lo, cl, vol, ct). lo) rows,
      c_close = map (\<lambda>(ot, op, hi, lo, cl, vol, ct). cl) rows,
      c_volume = map (\<lambda>(ot, op, hi, lo, cl, vol, ct). vol) rows,
      c_timestamp = map row_close_time rows\<rparr>"

text \<open>\<open>settings.SAFETY_MARGIN_MS\<close>, at its default.\<close>

definition SAFETY_MARGIN_MS :: int where
  "SAFETY_MARGIN_MS = 1500"

text \<open>The clock reading \<open>time.time()\<close> inside \<open>_normalize_klines\<close> is the argument \<open>now_ms\<close>.\<close>

definition normalize_klines :: "klines_payload \<Rightarrow> interval \<Rightarrow> int \<Rightarrow> exc + candles" where
  "normalize_klines klines intv now_ms =
     (case klines of
        NotAList \<Rightarrow> Inl ValueError
      | KlineList entries \<Rightarrow>
          if entries = [] then Inl ValueError
          else
            (case parse_klines entries of
               Inl e \<Rightarrow> Inl e
             | Inr rows \<Rightarrow>
                 (case validate_sequence (map row_open_time rows)
                         (INTERVAL_SECONDS intv * 1000) of
                    Some e \<Rightarrow> Inl e
                  | None \<Rightarrow>
                      let kept =
                            (if \<not> is_closed (last (map row_close_time rows)) now_ms
                                    SAFETY_MARGIN_MS
                             then butlast rows else rows)
                      in if kept = [] then Inr (candles_of [])
                         else Inr (candles_of kept))))"

definition fetch_closed_klines ::
  "exc + klines_payload \<Rightarrow> interval \<Rightarrow> int \<Rightarrow> exc + candles" where
  "fetch_closed_klines response intv now_ms =
     (case response of
        Inl e \<Rightarrow> Inl e
      | Inr raw \<Rightarrow> normalize_klines raw intv now_ms)"

section \<open>main.py: the control loop\<close>

record bot =
  bot_tpsl :: tpsl_manager
  bot_limits :: trade_limits
  bot_kill :: kill_switch
  last_position_open :: bool
  last_pnl_check_ms :: int

text \<open>
  What one pass of the \<open>while True\<close> loop reads from outside: the account information for
  the tracker's reconciliation, the clock, the two kline answers with the clock readings
  taken while normalising them, and \<open>ce_rest\<close>, the remainder of the pass after both
  fetches (entry processing, protection sync, PnL accounting), which returns the new state
  or raises.
\<close>

record cycle_env =
  ce_account_info :: "exc + account_info"
  ce_now_ms :: int
  ce_klines_1m :: "exc + klines_payload"
  ce_clock_1m :: int
  ce_klines_5m :: "exc + klines_payload"
  ce_clock_5m :: int
  ce_rest :: "candles \<Rightarrow> candles \<Rightarrow> bot \<Rightarrow> exc + bot"

text \<open>
  The loop sits inside \<open>try: ... except KeyboardInterrupt\<close>; the body has a handler only
  around the tracker's reconciliation, and only for \<open>BinanceAPIError\<close>. An exception that
  leaves the body therefore leaves \<open>main\<close>: the process ends (\<open>Exited\<close>). Otherwise the
  loop goes on to the next pass (\<open>Running\<close>). The test \<open>candles is None\<close> after the fetches
  never holds, since \<open>fetch_closed_klines\<close> returns a dictionary or raises.
\<close>

datatype loop_state = Running bot | Exited exc

definition main_cycle :: "cycle_env \<Rightarrow> bot \<Rightarrow> loop_state" where
  "main_cycle env b =
     (case sync_from_exchange (ce_account_info env) (tracker (bot_tpsl b)) of
        (Some e, t) \<Rightarrow>
          if e = BinanceAPIError then Running (b\<lparr>bot_tpsl := (bot_tpsl b)\<lparr>tracker := t\<rparr>\<rparr>)
          else Exited e
      | (None, t) \<Rightarrow>
          let b1 = b\<lparr>bot_tpsl := (bot_tpsl b)\<lparr>tracker := t\<rparr>\<rparr>
          in case reset_if_needed (ce_now_ms env) (bot_limits b1) of
               Inl e \<Rightarrow> Exited e
             | Inr limits \<Rightarrow>
                 let ks = (if \<not> limits_exceeded limits \<and> \<not> is_trading_allowed (bot_kill b1)
                           then reset_daily (bot_kill b1) else bot_kill b1);
                     b2 = b1\<lparr>bot_limits := limits, bot_kill := ks\<rparr>
                 in case fetch_closed_klines (ce_klines_1m env) I1m (ce_clock_1m env) of
                      Inl e \<Rightarrow> Exited e
                    | Inr candles_1m \<Rightarrow>
                        (case fetch_closed_klines (ce_klines_5m env) I5m (ce_clock_5m env) of
                           Inl e \<Rightarrow> Exited e
                         | Inr candles_5m \<Rightarrow>
                             (case ce_rest env candles_1m candles_5m b2 of
                                Inl e \<Rightarrow> Exited e
                              | Inr b3 \<Rightarrow> Running b3)))"

text \<open>The loop over a finite run of passes; \<open>Running\<close> at the end means it is still going.\<close>

fun main_loop :: "cycle_env list \<Rightarrow> bot \<Rightarrow> loop_state" where
  "main_loop [] b = Running b"
| "main_loop (env # envs) b =
     (case main_cycle env b of
        Exited e \<Rightarrow> Exited e
      | Running b' \<Rightarrow> main_loop envs b')"

section \<open>Concrete states used in the examples\<close>

definition nov14 :: datetime where
  "nov14 = \<lparr>dt_date = \<lparr>year = 2023, month = 11, day = 14\<rparr>, hour = 22\<rparr>"

definition three_losses :: trade_limits where
  "three_losses =
     \<lparr>daily_trades = 3, hourly_trades = 3, daily_loss = - 35,
      current_day = \<lparr>year = 2023, month = 11, day = 14\<rparr>, current_hour_key = 20237654,
      max_daily_loss = None, max_trades_per_day = None, max_trades_per_hour = None\<rparr>"

definition over_limit :: trade_limits where
  "over_limit = three_losses\<lparr>max_trades_per_day := Some 2\<rparr>"

definition under_limit :: trade_limits where
  "under_limit = over_limit\<lparr>daily_trades := 0\<rparr>"

definition btc_filters :: symbol_filters where
  "btc_filters = \<lparr>tickSize = 1 / 100, stepSize = 1 / 1000\<rparr>"


definition local_long :: position where
  "local_long = \<lparr>symbol = ''BTCUSDT'', side = ''LONG'', quantity = 1,
                  entry_price = 100, entry_time = 0\<rparr>"

definition tracker_long :: position_tracker where
  "tracker_long = \<lparr>tracker_symbol = ''BTCUSDT'', tracker_position = Some local_long\<rparr>"

definition tracker_flat :: position_tracker where
  "tracker_flat = \<lparr>tracker_symbol = ''BTCUSDT'', tracker_position = None\<rparr>"

definition remote_long_15 :: position_entry where
  "remote_long_15 = \<lparr>pe_symbol = Some ''BTCUSDT'', positionAmt = Some (3 / 2),
                      entryPrice = Some 100, updateTime = Some 7\<rparr>"

definition adopted_long_15 :: position where
  "adopted_long_15 = \<lparr>symbol = ''BTCUSDT'', side = ''LONG'', quantity = 3 / 2,
                       entry_price = 100, entry_time = 7\<rparr>"

definition long_remote :: position_entry where
  "long_remote = \<lparr>pe_symbol = Some ''BTCUSDT'', positionAmt = Some (2 / 100),
                   entryPrice = Some 50010, updateTime = Some 1700000000000\<rparr>"

definition long_position :: position where
  "long_position = \<lparr>symbol = ''BTCUSDT'', side = ''LONG'', quantity = 2 / 100,
                     entry_price = 50010, entry_time = 1700000000000\<rparr>"

definition fresh_manager :: tpsl_manager where
  "fresh_manager = TpSlManager_init tracker_flat"

definition protected_manager :: tpsl_manager where
  "protected_manager =
     \<lparr>tp_order_id = Some 11, sl_order_id = Some 12, is_protected = True,
      tracker = \<lparr>tracker_symbol = ''BTCUSDT'', tracker_position = Some long_position\<rparr>\<rparr>"

definition healthy_exchange :: exchange where
  "healthy_exchange =
     \<lparr>account_info_result = Inr \<lparr>positions = Some [long_remote]\<rparr>,
      take_profit_result = Inr \<lparr>orderId = Some 11\<rparr>,
      stop_loss_result = Inr \<lparr>orderId = Some 12\<rparr>,
      cancel_result = (\<lambda>i. None),
      filters = btc_filters\<rparr>"

definition tp_rejected :: exchange where
  "tp_rejected = healthy_exchange\<lparr>take_profit_result := Inl BinanceAPIError\<rparr>"

definition sl_without_id :: exchange where
  "sl_without_id = healthy_exchange\<lparr>stop_loss_result := Inr \<lparr>orderId = None\<rparr>\<rparr>"

definition account_outage :: exchange where
  "account_outage = healthy_exchange\<lparr>account_info_result := Inl BinanceAPIError\<rparr>"

definition bot0 :: bot where
  "bot0 = \<lparr>bot_tpsl = fresh_manager, bot_limits = TradeLimits_init nov14,
           bot_kill = KillSwitch_init, last_position_open = False,
           last_pnl_check_ms = 1700000000000\<rparr>"

definition good_1m :: klines_payload where
  "good_1m = KlineList
     [Kline 1699999800000 100 101 99 100 5 1699999859999,
      Kline 1699999860000 100 102 100 101 7 1699999919999]"

definition gap_1m :: klines_payload where
  "gap_1m = KlineList
     [Kline 1699999740000 100 101 99 100 5 1699999799999,
      Kline 1699999860000 100 102 100 101 7 1699999919999]"

definition good_5m :: klines_payload where
  "good_5m = KlineList [Kline 1699999500000 100 103 98 101 40 1699999799999]"

definition quiet_cycle :: cycle_env where
  "quiet_cycle =
     \<lparr>ce_account_info = Inr \<lparr>positions = Some []\<rparr>,
      ce_now_ms = 1700000001000,
      ce_klines_1m = Inr good_1m, ce_clock_1m = 1700000001000,
      ce_klines_5m = Inr good_5m, ce_clock_5m = 1700000001000,
      ce_rest = (\<lambda>candles_1m candles_5m b. Inr b)\<rparr>"

text \<open>The double \<open>2^-600\<close>.\<close>

definition tiny_double :: real where
  "tiny_double = 1 / 2 ^ 600"

definition outage_cycle :: cycle_env where
  "outage_cycle =
     quiet_cycle\<lparr>ce_account_info := Inl BinanceAPIError,
                 ce_rest := (\<lambda>candles_1m candles_5m b. Inr (b\<lparr>last_position_open := True\<rparr>))\<rparr>"

section \<open>Properties\<close>

subsection \<open>Rounding to a grid\<close>

lemma pow10_powi: "pow10 k = 10 powi k"
  by (simp add: pow10_def power_int_def field_simps)

lemma pow10_pos: "0 < pow10 k"
  by (simp add: pow10_powi)

lemma pow10_add: "pow10 (a + b) = pow10 a * pow10 b"
  by (simp add: pow10_powi power_int_add)

lemma pow10_nonneg: "0 \<le> k \<Longrightarrow> pow10 k = of_int (10 ^ nat k)"
  by (simp add: pow10_def)

lemma round_half_even_of_int: "round_half_even (of_int n) = n"
  by (simp add: round_half_even_def)


lemma floor_log10_less:
  assumes "0 < x" "x < pow10 n"
  shows "\<lfloor>log 10 x\<rfloor> < n"
proof -
  have "x < 10 powr (of_int n)"
    using assms by (simp add: pow10_powi powr_real_of_int')
  then have "log 10 x < of_int n"
    using assms(1) by (simp add: log_less_iff)
  then show ?thesis by (simp add: floor_less_iff)
qed

lemma dec_round_fixed:
  assumes "x = of_int m * pow10 j" and "\<bar>m\<bar> < 10 ^ 28"
  shows "dec_round x = x"
proof (cases "m = 0")
  case True
  with assms show ?thesis by (simp add: dec_round_def)
next
  case False
  let ?e = "\<lfloor>log 10 \<bar>x\<bar>\<rfloor>"
  have xpos: "0 < \<bar>x\<bar>" using False assms(1) pow10_pos [of j] by simp
  have "\<bar>x\<bar> = of_int \<bar>m\<bar> * pow10 j"
    using assms(1) pow10_pos [of j] by (simp add: abs_mult)
  also have "\<dots> < 10 ^ 28 * pow10 j"
    using assms(2) pow10_pos [of j]
    by (intro mult_strict_right_mono) (simp_all add: of_int_less_iff [where 'a = real, symmetric] del: of_int_less_iff)
  also have "\<dots> = pow10 (28 + j)"
  proof -
    have "pow10 28 = 10 ^ 28" by (simp add: pow10_def)
    then show ?thesis by (simp only: pow10_add)
  qed
  finally have "?e < 28 + j" using xpos by (intro floor_log10_less)
  then have d: "0 \<le> j - (?e - 27)" by simp
  define d where "d = j - (?e - 27)"
  have dn: "0 \<le> d" using d by (simp add: d_def)
  define Q where "Q = pow10 (?e - 27)"
  have Qpos: "0 < Q" by (simp add: Q_def pow10_pos)
  have "pow10 j = pow10 d * Q"
    unfolding Q_def pow10_add [symmetric] by (simp add: d_def)
  then have "x = of_int m * pow10 d * Q"
    using assms(1) by simp
  then have "x / Q = of_int m * pow10 d"
    using Qpos by simp
  also have "\<dots> = of_int (m * 10 ^ nat d)"
    using dn by (simp add: pow10_nonneg)
  finally have q: "x / pow10 (?e - 27) = of_int (m * 10 ^ nat d)"
    by (simp only: Q_def)
  have "x \<noteq> 0" using xpos by simp
  then have "dec_round x = of_int (round_half_even (x / pow10 (?e - 27))) * pow10 (?e - 27)"
    by (simp add: dec_round_def Let_def)
  also have "\<dots> = of_int (m * 10 ^ nat d) * pow10 (?e - 27)"
    unfolding q round_half_even_of_int ..
  also have "\<dots> = x / pow10 (?e - 27) * pow10 (?e - 27)"
    unfolding q ..
  also have "\<dots> = x" using pow10_pos [of "?e - 27"] by simp
  finally show ?thesis .
qed



lemma pow2_powi: "pow2 k = 2 powi k"
  by (simp add: pow2_def power_int_def field_simps)

lemma pow2_pos: "0 < pow2 k"
  by (simp add: pow2_powi)

lemma pow2_add: "pow2 (a + b) = pow2 a * pow2 b"
  by (simp add: pow2_powi power_int_add)

lemma pow2_nonneg: "0 \<le> k \<Longrightarrow> pow2 k = of_int (2 ^ nat k)"
  by (simp add: pow2_def)

lemma floor_log2_less:
  assumes "0 < x" "x < pow2 n"
  shows "\<lfloor>log 2 x\<rfloor> < n"
proof -
  have "x < 2 powr (of_int n)"
    using assms by (simp add: pow2_powi powr_real_of_int')
  then have "log 2 x < of_int n"
    using assms(1) by (simp add: log_less_iff)
  then show ?thesis by (simp add: floor_less_iff)
qed

lemma round_double_fixed:
  assumes "x = of_int m * pow2 j" and "\<bar>m\<bar> < 2 ^ 53" and "- 1074 \<le> j"
      and "\<bar>x\<bar> < pow2 1024"
  shows "round_double x = Finite x"
proof (cases "m = 0")
  case True
  with assms show ?thesis by (simp add: round_double_def)
next
  case False
  define e where "e = (if \<bar>x\<bar> < pow2 (- 1022) then - 1022 else \<lfloor>log 2 \<bar>x\<bar>\<rfloor>)"
  have xpos: "0 < \<bar>x\<bar>" using False assms(1) pow2_pos [of j] by simp
  have "\<bar>x\<bar> = of_int \<bar>m\<bar> * pow2 j"
    using assms(1) pow2_pos [of j] by (simp add: abs_mult)
  also have "\<dots> < 2 ^ 53 * pow2 j"
    using assms(2) pow2_pos [of j]
    by (intro mult_strict_right_mono) (simp_all add: of_int_less_iff [where 'a = real, symmetric] del: of_int_less_iff)
  also have "\<dots> = pow2 (53 + j)"
  proof -
    have "pow2 53 = 2 ^ 53" by (simp add: pow2_def)
    then show ?thesis by (simp only: pow2_add)
  qed
  finally have "\<lfloor>log 2 \<bar>x\<bar>\<rfloor> < 53 + j" using xpos by (intro floor_log2_less)
  then have "e - 52 \<le> j" using assms(3) by (simp add: e_def)
  define d where "d = j - (e - 52)"
  have dn: "0 \<le> d" using \<open>e - 52 \<le> j\<close> by (simp add: d_def)
  define U where "U = pow2 (e - 52)"
  have Upos: "0 < U" by (simp add: U_def pow2_pos)
  have "pow2 j = pow2 d * U"
    unfolding U_def pow2_add [symmetric] by (simp add: d_def)
  then have xU: "x = of_int m * pow2 d * U"
    using assms(1) by simp
  then have "x / U = of_int m * pow2 d"
    using Upos by simp
  also have "\<dots> = of_int (m * 2 ^ nat d)"
    using dn by (simp add: pow2_nonneg)
  finally have q: "x / U = of_int (m * 2 ^ nat d)" .
  have y: "of_int (round_half_even (x / U)) * U = x"
  proof -
    have "of_int (round_half_even (x / U)) * U = of_int (m * 2 ^ nat d) * U"
      unfolding q round_half_even_of_int ..
    also have "\<dots> = x / U * U" unfolding q ..
    also have "\<dots> = x" using Upos by simp
    finally show ?thesis .
  qed
  have "x \<noteq> 0" using xpos by simp
  then have "round_double x =
      (if pow2 1024 \<le> \<bar>of_int (round_half_even (x / U)) * U\<bar>
       then (if 0 < x then PosInf else NegInf)
       else Finite (of_int (round_half_even (x / U)) * U))"
    by (simp add: round_double_def Let_def e_def U_def)
  also have "\<dots> = Finite x"
    unfolding y using assms(4) by simp
  finally show ?thesis .
qed

lemma round_half_even_small:
  assumes "r < 1 / 2" and "0 \<le> r"
  shows "round_half_even r = 0"
proof -
  have "\<lfloor>r\<rfloor> = 0" using assms by (simp add: floor_eq_iff)
  then show ?thesis using assms by (simp add: round_half_even_def)
qed

lemma round_double_underflow:
  assumes "0 < x" and "x < pow2 (- 1075)"
  shows "round_double x = Finite 0"
proof -
  have small: "\<bar>x\<bar> < pow2 (- 1022)"
  proof -
    have "pow2 (- 1075) \<le> pow2 (- 1022)"
      by (simp add: pow2_powi power_int_increasing)
    with assms show ?thesis by simp
  qed
  have "x / pow2 (- 1074) < 1 / 2"
  proof -
    have "pow2 (- 1075) = pow2 (- 1074) * pow2 (- 1)"
      unfolding pow2_add [symmetric] by simp
    also have "pow2 (- 1) = 1 / 2" by (simp add: pow2_def)
    finally have "x < pow2 (- 1074) * (1 / 2)" using assms(2) by simp
    then show ?thesis using pow2_pos [of "- 1074"] by (simp add: field_simps)
  qed
  moreover have "0 \<le> x / pow2 (- 1074)" using assms(1) pow2_pos [of "- 1074"] by simp
  ultimately have "round_half_even (x / pow2 (- 1074)) = 0"
    by (rule round_half_even_small)
  then show ?thesis
    using assms(1) small pow2_pos [of 1024]
    by (simp add: round_double_def Let_def)
qed


subsection \<open>Position sizing\<close>

lemma fdiv_nonzero:
  assumes "y \<noteq> Finite 0"
  shows "\<exists>q. fdiv x y = Inr q"
  using assms by (cases y; cases x) auto

text \<open>
  C6, as the code has it in double arithmetic. \<open>compute_position_size\<close> returns \<open>None\<close>,
  without raising, whenever one of the four arguments is \<open>\<le> 0\<close>. For strictly positive
  arguments whose product \<open>entry_price * sl_percent\<close> is not zero as a double, the division
  returns a double \<open>qty\<close> and the result is \<open>qty\<close> when \<open>qty > 0\<close> and \<open>None\<close> otherwise. When
  the two products and their quotient are doubles themselves, the result is exactly
  \<open>(equity * risk_percent) / (entry_price * sl_percent)\<close>, and it is strictly positive.
\<close>

theorem compute_position_size_spec:
  "(fle0 equity \<or> fle0 risk_percent \<or> fle0 price \<or> fle0 sl_percent \<longrightarrow>
      compute_position_size equity risk_percent price sl_percent = Inr None)
   \<and> (fgt0 equity \<and> fgt0 risk_percent \<and> fgt0 price \<and> fgt0 sl_percent
       \<and> fmul price sl_percent \<noteq> Finite 0 \<longrightarrow>
        (\<exists>qty. fdiv (fmul equity risk_percent) (fmul price sl_percent) = Inr qty
           \<and> compute_position_size equity risk_percent price sl_percent
               = Inr (if fgt0 qty then Some qty else None)))
   \<and> (0 < a \<and> 0 < b \<and> 0 < c \<and> 0 < d
       \<and> round_double (a * b) = Finite (a * b)
       \<and> round_double (c * d) = Finite (c * d)
       \<and> round_double ((a * b) / (c * d)) = Finite ((a * b) / (c * d)) \<longrightarrow>
        compute_position_size (Finite a) (Finite b) (Finite c) (Finite d)
          = Inr (Some (Finite ((a * b) / (c * d))))
        \<and> 0 < (a * b) / (c * d))"
proof (intro conjI impI)
  assume "fle0 equity \<or> fle0 risk_percent \<or> fle0 price \<or> fle0 sl_percent"
  then show "compute_position_size equity risk_percent price sl_percent = Inr None"
    by (simp add: compute_position_size_def)
next
  assume h: "fgt0 equity \<and> fgt0 risk_percent \<and> fgt0 price \<and> fgt0 sl_percent
       \<and> fmul price sl_percent \<noteq> Finite 0"
  have pos: "\<not> fle0 x" if "fgt0 x" for x
    using that by (cases x) (simp_all add: fle0_def fgt0_def)
  from h obtain q where q: "fdiv (fmul equity risk_percent) (fmul price sl_percent) = Inr q"
    using fdiv_nonzero by blast
  with h pos show "\<exists>qty. fdiv (fmul equity risk_percent) (fmul price sl_percent) = Inr qty
           \<and> compute_position_size equity risk_percent price sl_percent
               = Inr (if fgt0 qty then Some qty else None)"
    by (simp add: compute_position_size_def)
next
  assume h: "0 < a \<and> 0 < b \<and> 0 < c \<and> 0 < d
       \<and> round_double (a * b) = Finite (a * b)
       \<and> round_double (c * d) = Finite (c * d)
       \<and> round_double ((a * b) / (c * d)) = Finite ((a * b) / (c * d))"
  then have p: "0 < (a * b) / (c * d)" by simp
  then show "0 < (a * b) / (c * d)" .
  have "c * d \<noteq> 0" using h by simp
  with h p show "compute_position_size (Finite a) (Finite b) (Finite c) (Finite d)
          = Inr (Some (Finite ((a * b) / (c * d))))"
    by (simp add: compute_position_size_def fle0_def fgt0_def)
qed

lemma tiny_double_pos: "0 < tiny_double"
  by (simp add: tiny_double_def)

lemma round_double_tiny: "round_double (tiny_double * tiny_double) = Finite 0"
proof (rule round_double_underflow)
  show "0 < tiny_double * tiny_double" using tiny_double_pos by simp
  have "tiny_double * tiny_double = 1 / 2 ^ 1200"
    by (simp add: tiny_double_def power_add [symmetric])
  also have "\<dots> < 1 / 2 ^ 1075"
    by (simp add: field_simps power_strict_increasing_iff)
  also have "\<dots> = pow2 (- 1075)" by (simp add: pow2_def)
  finally show "tiny_double * tiny_double < pow2 (- 1075)" .
qed

lemma round_double_zero: "round_double 0 = Finite 0"
  by (simp add: round_double_def)

lemma round_double_one: "round_double 1 = Finite 1"
  using round_double_fixed [of 1 1 0] by (simp add: pow2_def)

lemma round_double_two: "round_double 2 = Finite 2"
  using round_double_fixed [of 2 1 1] by (simp add: pow2_def)

lemma tiny_double_representable: "round_double tiny_double = Finite tiny_double"
  using round_double_fixed [of tiny_double 1 "- 600"]
  by (simp add: pow2_def tiny_double_def)

text \<open>
  C6 as stated fails: \<open>2^-600\<close> is a strictly positive double, and with
  \<open>equity = risk_percent = 2^-600\<close> the numerator underflows to zero, so the result is
  \<open>None\<close>, not a strictly positive quotient.
\<close>

theorem compute_position_size_underflow:
  "fgt0 (Finite tiny_double) \<and> fgt0 (Finite 1)
   \<and> compute_position_size (Finite tiny_double) (Finite tiny_double) (Finite 1) (Finite 1)
       = Inr None"
  using tiny_double_pos
  by (simp add: compute_position_size_def fle0_def fgt0_def round_double_tiny round_double_one
        round_double_zero)

text \<open>With the same double as price and stop distance the denominator underflows and the
  division raises.\<close>

lemma compute_position_size_zero_division:
  "compute_position_size (Finite 1) (Finite 1) (Finite tiny_double) (Finite tiny_double)
     = Inl ZeroDivisionError"
  using tiny_double_pos
  by (simp add: compute_position_size_def fle0_def round_double_tiny round_double_one)

theorem compute_position_size_spec_witness:
  "compute_position_size (Finite 8) (Finite (1 / 4)) (Finite 4) (Finite (1 / 2))
     = Inr (Some (Finite 1))
   \<and> compute_position_size (Finite 0) (Finite (1 / 4)) (Finite 4) (Finite (1 / 2)) = Inr None"
  using compute_position_size_spec [of "Finite 8" "Finite (1 / 4)" "Finite 4" "Finite (1 / 2)"
          8 "1 / 4" 4 "1 / 2"]
        compute_position_size_spec [of "Finite 0" "Finite (1 / 4)" "Finite 4" "Finite (1 / 2)"
          8 "1 / 4" 4 "1 / 2"]
  by (simp add: fle0_def fgt0_def round_double_one round_double_two)


subsection \<open>Calendar facts for the examples\<close>

lemmas calendar_defs =
  utcfromtimestamp_def ord2ymd_def Let_def DAYS_BEFORE_MONTH_def DAYS_IN_MONTH_def

lemma utc_nov14:
  "utcfromtimestamp 1700000000000 = Inr nov14"
  "utcfromtimestamp 1700000001000 = Inr nov14"
  "utcfromtimestamp 1700000002000 = Inr nov14"
  "utcfromtimestamp 1700000003000 = Inr nov14"
  by (simp_all add: calendar_defs nov14_def)







subsection \<open>Trade limits\<close>

text \<open>
  C7. For every pnl and every timestamp that \<open>utcfromtimestamp\<close> accepts,
  \<open>record_trade pnl now\<close> first applies \<open>reset_if_needed now\<close>, then adds exactly 1 to
  both \<open>daily_trades\<close> and \<open>hourly_trades\<close>, and adds pnl to \<open>daily_loss\<close> exactly when
  \<open>pnl < 0\<close>; a trade with \<open>pnl \<ge> 0\<close> leaves \<open>daily_loss\<close> as the reset left it.
\<close>

theorem record_trade_spec:
  assumes "utcfromtimestamp now_ms = Inr now"
  shows "\<exists>r r'. reset_if_needed now_ms tlim = Inr r
           \<and> record_trade pnl now_ms tlim = Inr r'
           \<and> daily_trades r' = daily_trades r + 1
           \<and> hourly_trades r' = hourly_trades r + 1
           \<and> daily_loss r' = (if pnl < 0 then daily_loss r + pnl else daily_loss r)
           \<and> current_day r' = current_day r
           \<and> current_hour_key r' = current_hour_key r"
  using assms by (simp add: record_trade_def reset_if_needed_def Let_def)

theorem record_trade_spec_witness:
  "\<exists>r r'. reset_if_needed 1700000001000 (TradeLimits_init nov14) = Inr r
     \<and> record_trade (- 10) 1700000001000 (TradeLimits_init nov14) = Inr r'
     \<and> daily_trades r' = daily_trades r + 1
     \<and> hourly_trades r' = hourly_trades r + 1
     \<and> daily_loss r' = daily_loss r + (- 10)
     \<and> current_day r' = current_day r
     \<and> current_hour_key r' = current_hour_key r"
  using record_trade_spec [OF utc_nov14(2), of "TradeLimits_init nov14" "- 10"]
  by simp



subsection \<open>Kill switch\<close>

lemma evaluate_keeps_tripped:
  "\<not> is_trading_allowed ks \<Longrightarrow> \<not> is_trading_allowed (evaluate l ks)"
  by (simp add: evaluate_def)

lemma fold_evaluate_keeps_tripped:
  "\<not> is_trading_allowed ks \<Longrightarrow> \<not> is_trading_allowed (fold evaluate ls ks)"
  by (induction ls arbitrary: ks) (simp_all add: evaluate_keeps_tripped)

text \<open>
  C4. The kill switch is one-directional. In any sequence of \<open>evaluate\<close> calls that
  contains a call with limits for which \<open>limits_exceeded\<close> holds, \<open>is_trading_allowed\<close>
  is false at the end, whatever limits the later calls are given; \<open>reset_daily\<close> sets it
  back to true.
\<close>

theorem kill_switch_one_way:
  assumes "limits_exceeded l"
  shows "\<not> is_trading_allowed (fold evaluate (before @ l # after) ks)
         \<and> is_trading_allowed (reset_daily (fold evaluate (before @ l # after) ks))"
proof -
  have "\<not> is_trading_allowed (evaluate l (fold evaluate before ks))"
    using assms by (simp add: evaluate_def)
  then have "\<not> is_trading_allowed
               (fold evaluate after (evaluate l (fold evaluate before ks)))"
    by (rule fold_evaluate_keeps_tripped)
  then show ?thesis by (simp add: reset_daily_def)
qed

theorem kill_switch_one_way_witness:
  "limits_exceeded over_limit \<and> \<not> limits_exceeded under_limit
   \<and> \<not> is_trading_allowed
         (fold evaluate [under_limit, over_limit, under_limit, under_limit] KillSwitch_init)
   \<and> is_trading_allowed
         (reset_daily
            (fold evaluate [under_limit, over_limit, under_limit, under_limit]
               KillSwitch_init))"
proof -
  have h: "limits_exceeded over_limit"
    by (simp add: limits_exceeded_def over_limit_def three_losses_def)
  have u: "\<not> limits_exceeded under_limit"
    by (simp add: limits_exceeded_def over_limit_def under_limit_def three_losses_def)
  show ?thesis
    using h u
      kill_switch_one_way [OF h, of "[under_limit]" "[under_limit, under_limit]"
        KillSwitch_init]
    by simp
qed

subsection \<open>Rounding to the exchange step\<close>



text \<open>Flooring a positive value to a step written as a decimal \<open>t * 10^e\<close>, when the
  floored multiple fits the 28 digits.\<close>

lemma floor_to_step_exact:
  assumes "0 < q" and "0 < s" and "s = of_int t * pow10 e"
      and "\<lfloor>q / s\<rfloor> * t < 10 ^ 28"
  shows "dec_floordiv q s = Inr (of_int \<lfloor>q / s\<rfloor>)"
    and "dec_mul (of_int \<lfloor>q / s\<rfloor>) s = of_int \<lfloor>q / s\<rfloor> * s"
proof -
  let ?k = "\<lfloor>q / s\<rfloor>"
  have tpos: "0 < t"
  proof (rule ccontr)
    assume "\<not> 0 < t"
    then have "of_int t * pow10 e \<le> 0"
      using pow10_pos [of e] by (simp add: mult_le_0_iff)
    with assms(2,3) show False by simp
  qed
  have k0: "0 \<le> ?k" using assms(1,2) by simp
  have "?k \<le> ?k * t" using k0 tpos by (simp add: mult_le_cancel_left1)
  with assms(4) have kb: "?k < 10 ^ 28" by linarith
  show "dec_floordiv q s = Inr (of_int ?k)"
    using assms(1,2) k0 kb by (simp add: dec_floordiv_def Let_def)
  have "of_int ?k * s = of_int (?k * t) * pow10 e"
    using assms(3) by simp
  moreover have "\<bar>?k * t\<bar> < 10 ^ 28"
    using k0 tpos assms(4) by (simp add: abs_mult)
  ultimately show "dec_mul (of_int ?k) s = of_int ?k * s"
    unfolding dec_mul_def by (rule dec_round_fixed)
qed







subsection \<open>Position tracker\<close>

text \<open>
  What \<open>sync_from_exchange\<close> does in each case: it adopts the remote position when none is
  tracked; overwrites the local position with the remote one when they differ in side, or
  in quantity or entry price by more than \<open>1e-8\<close>; leaves the local state unchanged when
  the exchange reports no position; and leaves it unchanged when the query fails, letting
  the exception through unless it is \<open>BinanceAPIError\<close>.
\<close>

lemma sync_from_exchange_cases:
  "(find_remote (tracker_symbol t) (get_or (positions info) []) = Some remote
      \<and> tracker_position t = None
      \<longrightarrow> sync_from_exchange (Inr info) t = (None, t\<lparr>tracker_position := Some remote\<rparr>))
   \<and> (find_remote (tracker_symbol t) (get_or (positions info) []) = Some remote
      \<and> tracker_position t = Some loc
      \<and> (side loc \<noteq> side remote
          \<or> \<bar>quantity loc - quantity remote\<bar> > 1 / 10 ^ 8
          \<or> \<bar>entry_price loc - entry_price remote\<bar> > 1 / 10 ^ 8)
      \<longrightarrow> sync_from_exchange (Inr info) t = (None, t\<lparr>tracker_position := Some remote\<rparr>))
   \<and> (find_remote (tracker_symbol t) (get_or (positions info) []) = None
      \<longrightarrow> sync_from_exchange (Inr info) t = (None, t))
   \<and> sync_from_exchange (Inl e) t = (if e = BinanceAPIError then None else Some e, t)"
  by (auto simp add: sync_from_exchange_def split: option.splits)

lemma sync_from_exchange_examples:
  "sync_from_exchange (Inr \<lparr>positions = Some [remote_long_15]\<rparr>) tracker_flat
     = (None, tracker_flat\<lparr>tracker_position := Some adopted_long_15\<rparr>)
   \<and> sync_from_exchange (Inr \<lparr>positions = Some [remote_long_15]\<rparr>) tracker_long
     = (None, tracker_long\<lparr>tracker_position := Some adopted_long_15\<rparr>)
   \<and> sync_from_exchange (Inr \<lparr>positions = Some []\<rparr>) tracker_long = (None, tracker_long)
   \<and> sync_from_exchange (Inl RequestException) tracker_long
     = (Some RequestException, tracker_long)"
  by (simp add: sync_from_exchange_def tracker_flat_def tracker_long_def get_or_def
        local_long_def adopted_long_15_def remote_long_15_def)

text \<open>The handler that \<open>main\<close> puts around the call can never run.\<close>

lemma sync_from_exchange_never_raises_api_error:
  "fst (sync_from_exchange response t) \<noteq> Some BinanceAPIError"
  by (auto simp add: sync_from_exchange_def split: sum.splits option.splits)

text \<open>
  C3 says that a failing remote query leaves the local state untouched and is surfaced to
  the caller. The state is untouched, but a query that fails with \<open>BinanceAPIError\<close> is
  caught inside \<open>sync_from_exchange\<close>, which returns normally: the caller in \<open>main\<close>, whose
  handler would report the failure and skip the pass, sees nothing and runs the rest of
  the pass. Below, the failing query on a tracker with a LONG position, and a pass of the
  loop whose remainder leaves a mark in the state.
\<close>

theorem sync_failure_not_surfaced:
  "sync_from_exchange (Inl BinanceAPIError) tracker_long = (None, tracker_long)
   \<and> main_cycle outage_cycle bot0 = Running (bot0\<lparr>last_position_open := True\<rparr>)"
proof
  show "sync_from_exchange (Inl BinanceAPIError) tracker_long = (None, tracker_long)"
    by (simp add: sync_from_exchange_def)
  show "main_cycle outage_cycle bot0 = Running (bot0\<lparr>last_position_open := True\<rparr>)"
    by code_simp
qed

theorem sync_failure_not_surfaced_witness:
  "fst (sync_from_exchange (Inl BinanceAPIError) tracker_long) = None
   \<and> snd (sync_from_exchange (Inl BinanceAPIError) tracker_long) = tracker_long"
  using sync_failure_not_surfaced by simp

subsection \<open>Protection manager\<close>

lemma find_long_remote: "find_remote ''BTCUSDT'' [long_remote] = Some long_position"
  by (simp add: long_remote_def long_position_def get_or_def)

lemma long_prices:
  "compute_prices 50010 ''LONG'' = (505101 / 10, 495099 / 10)"
  by (simp add: compute_prices_def TP_PERCENT_def SL_PERCENT_def)

lemma btc_rounding:
  "round_qty btc_filters (1 / 50) = Inr (1 / 50)"
  "round_price btc_filters (505101 / 10) = Inr (505101 / 10)"
  "round_price btc_filters (495099 / 10) = Inr (495099 / 10)"
proof -
  have s: "(1 / 1000 :: real) = of_int 1 * pow10 (- 3)" "(1 / 100 :: real) = of_int 1 * pow10 (- 2)"
    by (simp_all add: pow10_def)
  have f: "\<lfloor>1 / 50 / (1 / 1000 :: real)\<rfloor> = 20"
          "\<lfloor>505101 / 10 / (1 / 100 :: real)\<rfloor> = 5051010"
          "\<lfloor>495099 / 10 / (1 / 100 :: real)\<rfloor> = 4950990"
    by simp_all
  have "dec_floordiv (1 / 50) (1 / 1000) = Inr (of_int \<lfloor>1 / 50 / (1 / 1000 :: real)\<rfloor>)"
       "dec_mul (of_int \<lfloor>1 / 50 / (1 / 1000 :: real)\<rfloor>) (1 / 1000)
          = of_int \<lfloor>1 / 50 / (1 / 1000 :: real)\<rfloor> * (1 / 1000)"
    by (rule floor_to_step_exact [OF _ _ s(1)]; simp add: f)+
  then show "round_qty btc_filters (1 / 50) = Inr (1 / 50)"
    by (simp add: round_qty_def btc_filters_def f)
  have "dec_floordiv (505101 / 10) (1 / 100)
          = Inr (of_int \<lfloor>505101 / 10 / (1 / 100 :: real)\<rfloor>)"
       "dec_mul (of_int \<lfloor>505101 / 10 / (1 / 100 :: real)\<rfloor>) (1 / 100)
          = of_int \<lfloor>505101 / 10 / (1 / 100 :: real)\<rfloor> * (1 / 100)"
    by (rule floor_to_step_exact [OF _ _ s(2)]; simp add: f)+
  then show "round_price btc_filters (505101 / 10) = Inr (505101 / 10)"
    by (simp add: round_price_def btc_filters_def f)
  have "dec_floordiv (495099 / 10) (1 / 100)
          = Inr (of_int \<lfloor>495099 / 10 / (1 / 100 :: real)\<rfloor>)"
       "dec_mul (of_int \<lfloor>495099 / 10 / (1 / 100 :: real)\<rfloor>) (1 / 100)
          = of_int \<lfloor>495099 / 10 / (1 / 100 :: real)\<rfloor> * (1 / 100)"
    by (rule floor_to_step_exact [OF _ _ s(2)]; simp add: f)+
  then show "round_price btc_filters (495099 / 10) = Inr (495099 / 10)"
    by (simp add: round_price_def btc_filters_def f)
qed

lemma long_legs:
  "om_place_take_profit ex ''BTCUSDT'' ''SELL'' (1 / 50) (505101 / 10)
     = (if filters ex = btc_filters
        then (take_profit_result ex,
              [PlaceTakeProfit ''BTCUSDT'' ''SELL'' (1 / 50) (505101 / 10)])
        else om_place_take_profit ex ''BTCUSDT'' ''SELL'' (1 / 50) (505101 / 10))"
  "om_place_stop_loss ex ''BTCUSDT'' ''SELL'' (1 / 50) (495099 / 10)
     = (if filters ex = btc_filters
        then (stop_loss_result ex,
              [PlaceStopLoss ''BTCUSDT'' ''SELL'' (1 / 50) (495099 / 10)])
        else om_place_stop_loss ex ''BTCUSDT'' ''SELL'' (1 / 50) (495099 / 10))"
  by (simp_all add: om_place_take_profit_def om_place_stop_loss_def btc_rounding)

lemmas tpsl_examples =
  healthy_exchange_def tp_rejected_def sl_without_id_def account_outage_def
  fresh_manager_def protected_manager_def TpSlManager_init_def tracker_flat_def

text \<open>
  Whenever \<open>sync\<close> finds a position and returns, the flag is set, whatever the placement
  did.
\<close>

lemma sync_sets_flag_when_position_found:
  assumes "fetch_remote_position ex s = (Inr (Some pos), s0)"
      and "sync ex s = (None, s', calls)"
  shows "is_protected s'"
  using assms
  by (auto simp add: sync_def split: if_splits prod.splits option.splits)

text \<open>
  C1 says that after \<open>sync\<close> the flag \<open>is_protected\<close> holds only if both order ids are set,
  and that a failed placement leaves the manager unprotected. \<open>_place_protection\<close> does
  clear the ids and the flag when a leg fails, but \<open>sync\<close> then sets the flag
  unconditionally. The two runs below start from a fresh manager with an open LONG
  position on the exchange: in the first the take-profit request is rejected, in the second
  the stop-loss response carries no order id. Both end with no order id and
  \<open>is_protected = True\<close>.
\<close>

theorem sync_marks_failed_placement_protected:
  "sync tp_rejected fresh_manager =
     (None,
      \<lparr>tp_order_id = None, sl_order_id = None, is_protected = True,
        tracker = \<lparr>tracker_symbol = ''BTCUSDT'', tracker_position = Some long_position\<rparr>\<rparr>,
      [PlaceTakeProfit ''BTCUSDT'' ''SELL'' (2 / 100) (505101 / 10)])
   \<and> sync sl_without_id fresh_manager =
     (None,
      \<lparr>tp_order_id = None, sl_order_id = None, is_protected = True,
        tracker = \<lparr>tracker_symbol = ''BTCUSDT'', tracker_position = Some long_position\<rparr>\<rparr>,
      [PlaceTakeProfit ''BTCUSDT'' ''SELL'' (2 / 100) (505101 / 10),
       PlaceStopLoss ''BTCUSDT'' ''SELL'' (2 / 100) (495099 / 10),
       CancelOrder ''BTCUSDT'' 11])"
proof -
  define s0 where
    "s0 = fresh_manager\<lparr>tracker := set_position long_position (tracker fresh_manager)\<rparr>"
  have s0: "tp_order_id s0 = None" "sl_order_id s0 = None" "\<not> is_protected s0"
      "tracker_symbol (tracker s0) = ''BTCUSDT''"
    by (simp_all add: s0_def tpsl_examples set_position_def)
  have s0_same: "s0\<lparr>tp_order_id := None, sl_order_id := None, is_protected := False\<rparr> = s0"
      "s0\<lparr>is_protected := False\<rparr> = s0"
    by (simp_all add: s0_def tpsl_examples)
  have f1: "fetch_remote_position tp_rejected fresh_manager = (Inr (Some long_position), s0)"
   and f2: "fetch_remote_position sl_without_id fresh_manager = (Inr (Some long_position), s0)"
    by (simp_all add: s0_def fetch_remote_position_def tpsl_examples get_or_def
          find_long_remote del: find_remote.simps)
  have c1: "cancel_outstanding ex s0 = (None, s0, [])" for ex
    by (simp add: cancel_outstanding_def cancel_leg_def s0 s0_same)
  have prices: "compute_prices (entry_price long_position) (side long_position)
                  = (505101 / 10, 495099 / 10)"
    by (simp add: long_position_def long_prices)
  have l1: "place_legs tp_rejected long_position s0
              = (Some BinanceAPIError, s0,
                 [PlaceTakeProfit ''BTCUSDT'' ''SELL'' (1 / 50) (505101 / 10)])"
    unfolding place_legs_def prices
    by (simp add: long_position_def long_legs tp_rejected_def healthy_exchange_def Let_def)
  have p1: "place_protection tp_rejected long_position s0
              = (None, s0, [PlaceTakeProfit ''BTCUSDT'' ''SELL'' (1 / 50) (505101 / 10)])"
    by (simp add: place_protection_def l1 c1 s0_same)
  have l2: "place_legs sl_without_id long_position s0
              = (Some ValueError, s0\<lparr>tp_order_id := Some 11\<rparr>,
                 [PlaceTakeProfit ''BTCUSDT'' ''SELL'' (1 / 50) (505101 / 10),
                  PlaceStopLoss ''BTCUSDT'' ''SELL'' (1 / 50) (495099 / 10)])"
    unfolding place_legs_def prices
    by (simp add: long_position_def long_legs sl_without_id_def healthy_exchange_def
          truthy_id_def Let_def)
  have c2: "cancel_outstanding sl_without_id (s0\<lparr>tp_order_id := Some 11\<rparr>)
              = (None, s0, [CancelOrder ''BTCUSDT'' 11])"
    by (simp add: cancel_outstanding_def cancel_leg_def s0 s0_same sl_without_id_def
          healthy_exchange_def)
  have p2: "place_protection sl_without_id long_position s0
              = (None, s0,
                 [PlaceTakeProfit ''BTCUSDT'' ''SELL'' (1 / 50) (505101 / 10),
                  PlaceStopLoss ''BTCUSDT'' ''SELL'' (1 / 50) (495099 / 10),
                  CancelOrder ''BTCUSDT'' 11])"
    by (simp add: place_protection_def l2 c2 s0_same)
  have "sync tp_rejected fresh_manager
          = (None, s0\<lparr>is_protected := True\<rparr>,
             [PlaceTakeProfit ''BTCUSDT'' ''SELL'' (1 / 50) (505101 / 10)])"
    by (simp add: sync_def f1 s0 c1 p1)
  moreover have "sync sl_without_id fresh_manager
          = (None, s0\<lparr>is_protected := True\<rparr>,
             [PlaceTakeProfit ''BTCUSDT'' ''SELL'' (1 / 50) (505101 / 10),
              PlaceStopLoss ''BTCUSDT'' ''SELL'' (1 / 50) (495099 / 10),
              CancelOrder ''BTCUSDT'' 11])"
    by (simp add: sync_def f2 s0 c1 p2)
  ultimately show ?thesis
    by (simp add: s0_def tpsl_examples set_position_def)
qed

lemma cancel_outstanding_tracker:
  "cancel_outstanding ex s = (r, s', calls) \<Longrightarrow> tracker s' = tracker s"
  by (auto simp add: cancel_outstanding_def split: prod.splits option.splits)

lemma place_legs_tracker:
  "place_legs ex pos s = (r, s', calls) \<Longrightarrow> tracker s' = tracker s"
  by (auto simp add: place_legs_def Let_def split: prod.splits sum.splits if_splits)

lemma place_protection_tracker:
  assumes "place_protection ex pos s = (r, s', calls)"
  shows "tracker s' = tracker s"
proof (cases "place_legs ex pos s")
  case (fields r1 s1 calls1)
  then have t1: "tracker s1 = tracker s" by (rule place_legs_tracker)
  show ?thesis
  proof (cases "cancel_outstanding ex s1")
    case c: (fields r2 s2 calls2)
    then have "tracker s2 = tracker s1" by (rule cancel_outstanding_tracker)
    with assms fields c t1 show ?thesis
      by (auto simp add: place_protection_def split: option.splits if_splits)
  qed
qed

lemma sync_tracker_when_position_known:
  assumes "fetch_remote_position ex s = (Inr (Some pos), s0)"
      and "sync ex s = (r, s', calls)"
  shows "tracker s' = tracker s0"
proof (cases "is_protected s0")
  case True
  with assms show ?thesis by (simp add: sync_def)
next
  case False
  show ?thesis
  proof (cases "cancel_outstanding ex s0")
    case c: (fields r1 s1 calls1)
    then have t1: "tracker s1 = tracker s0" by (rule cancel_outstanding_tracker)
    show ?thesis
    proof (cases "place_protection ex pos s1")
      case p: (fields r2 s2 calls2)
      then have "tracker s2 = tracker s1" by (rule place_protection_tracker)
      with assms False c p t1 show ?thesis
        by (auto simp add: sync_def split: option.splits)
    qed
  qed
qed

text \<open>
  C5. In the protected state, with the exchange reporting an open position \<open>p\<close>, \<open>sync\<close>
  sends no order request (no placement, no cancellation) and changes nothing but the
  tracker's copy of the position, which becomes \<open>p\<close>; a second \<open>sync\<close> against an exchange
  that reports the same position is the identity on the manager and sends nothing, and so
  is the first one when the tracker already holds \<open>p\<close>.
\<close>

theorem sync_idempotent_when_protected:
  assumes "account_info_result ex = Inr info"
      and "account_info_result ex2 = Inr info"
      and "find_remote (tracker_symbol (tracker s)) (get_or (positions info) []) = Some p"
      and "is_protected s"
  shows "sync ex s = (None, s\<lparr>tracker := set_position p (tracker s)\<rparr>, [])
         \<and> sync ex2 (s\<lparr>tracker := set_position p (tracker s)\<rparr>)
             = (None, s\<lparr>tracker := set_position p (tracker s)\<rparr>, [])
         \<and> (tracker_position (tracker s) = Some p \<longrightarrow> sync ex2 s = (None, s, []))"
  using assms
  by (simp add: sync_def fetch_remote_position_def set_position_def)

theorem sync_idempotent_when_protected_witness:
  "sync healthy_exchange protected_manager = (None, protected_manager, [])
   \<and> sync sl_without_id protected_manager = (None, protected_manager, [])"
  using sync_idempotent_when_protected [of healthy_exchange "\<lparr>positions = Some [long_remote]\<rparr>"
          sl_without_id protected_manager long_position]
  by (simp add: tpsl_examples find_long_remote get_or_def set_position_def
        del: find_remote.simps)

text \<open>
  C10. When \<open>get_account_info\<close> fails with \<open>BinanceAPIError\<close> and the tracker holds a
  position \<open>p\<close>, \<open>_fetch_remote_position\<close> returns \<open>p\<close> and changes nothing. Then \<open>sync\<close>
  never touches the tracker (the local position stays \<open>p\<close>); in the protected state it
  sends no request at all and keeps both order ids; and in every state it behaves exactly
  as it would had the query succeeded and reported \<open>p\<close>, so the outage by itself causes
  no cancellation.
\<close>

theorem sync_api_outage_falls_back:
  assumes "account_info_result ex = Inl BinanceAPIError"
      and "tracker_position (tracker s) = Some p"
  shows "fetch_remote_position ex s = (Inr (Some p), s)
         \<and> (is_protected s \<longrightarrow> sync ex s = (None, s, []))
         \<and> tracker (fst (snd (sync ex s))) = tracker s
         \<and> (\<forall>info. find_remote (tracker_symbol (tracker s)) (get_or (positions info) [])
                       = Some p
                 \<longrightarrow> sync ex s = sync (ex\<lparr>account_info_result := Inr info\<rparr>) s)"
proof (intro conjI allI impI)
  show f: "fetch_remote_position ex s = (Inr (Some p), s)"
    using assms by (simp add: fetch_remote_position_def)
  show "sync ex s = (None, s, [])" if "is_protected s"
    using that f by (simp add: sync_def)
  show "tracker (fst (snd (sync ex s))) = tracker s"
    using sync_tracker_when_position_known [OF f, of "fst (sync ex s)" "fst (snd (sync ex s))"
            "snd (snd (sync ex s))"]
    by simp
next
  fix info :: account_info
  assume r: "find_remote (tracker_symbol (tracker s)) (get_or (positions info) []) = Some p"
  let ?ex = "ex\<lparr>account_info_result := Inr info\<rparr>"
  have leg: "cancel_leg ?ex = cancel_leg ex"
    by (auto simp add: fun_eq_iff cancel_leg_def split: option.splits)
  have co: "cancel_outstanding ?ex s' = cancel_outstanding ex s'" for s'
    unfolding cancel_outstanding_def leg by (rule refl)
  have tp: "om_place_take_profit ?ex = om_place_take_profit ex"
    by (auto simp add: fun_eq_iff om_place_take_profit_def split: sum.splits)
  have sl: "om_place_stop_loss ?ex = om_place_stop_loss ex"
    by (auto simp add: fun_eq_iff om_place_stop_loss_def split: sum.splits)
  have legs: "place_legs ?ex pos s' = place_legs ex pos s'" for pos s'
    unfolding place_legs_def tp sl by (rule refl)
  have pp: "place_protection ?ex pos s' = place_protection ex pos s'" for pos s'
    unfolding place_protection_def legs co by (rule refl)
  note same = co pp
  have "s\<lparr>tracker := set_position p (tracker s)\<rparr> = s"
    using assms(2) by (simp add: set_position_def)
  then have "fetch_remote_position ?ex s = (Inr (Some p), s)"
    using r by (simp add: fetch_remote_position_def)
  moreover have "fetch_remote_position ex s = (Inr (Some p), s)"
    using assms by (simp add: fetch_remote_position_def)
  ultimately show "sync ex s = sync ?ex s"
    unfolding sync_def co pp by simp
qed

theorem sync_api_outage_falls_back_witness:
  "fetch_remote_position account_outage protected_manager
     = (Inr (Some long_position), protected_manager)
   \<and> sync account_outage protected_manager = (None, protected_manager, [])
   \<and> sync account_outage protected_manager = sync healthy_exchange protected_manager"
proof -
  have o: "account_info_result account_outage = Inl BinanceAPIError"
    by (simp add: account_outage_def)
  have p: "tracker_position (tracker protected_manager) = Some long_position"
    and prot: "is_protected protected_manager"
    by (simp_all add: protected_manager_def)
  have r: "find_remote (tracker_symbol (tracker protected_manager))
             (get_or (positions \<lparr>positions = Some [long_remote]\<rparr>) []) = Some long_position"
    by (simp add: protected_manager_def get_or_def find_long_remote del: find_remote.simps)
  have h: "account_outage\<lparr>account_info_result := Inr \<lparr>positions = Some [long_remote]\<rparr>\<rparr>
             = healthy_exchange"
    by (simp add: account_outage_def healthy_exchange_def)
  note t = sync_api_outage_falls_back [OF o p]
  from t have 1: "fetch_remote_position account_outage protected_manager
                    = (Inr (Some long_position), protected_manager)"
    by (rule conjunct1)
  from t prot have 2: "sync account_outage protected_manager = (None, protected_manager, [])"
    by blast
  from t r have "sync account_outage protected_manager
                   = sync (account_outage\<lparr>account_info_result :=
                             Inr \<lparr>positions = Some [long_remote]\<rparr>\<rparr>) protected_manager"
    by blast
  then have 3: "sync account_outage protected_manager = sync healthy_exchange protected_manager"
    by (simp only: h)
  from 1 2 3 show ?thesis by (intro conjI)
qed

subsection \<open>Control loop and market data\<close>

text \<open>An exception raised by either kline fetch leaves the pass and ends the loop.\<close>

lemma main_cycle_exits_on_kline_error:
  assumes "sync_from_exchange (ce_account_info env) (tracker (bot_tpsl b)) = (None, t)"
      and "reset_if_needed (ce_now_ms env) (bot_limits b) = Inr limits"
      and "fetch_closed_klines (ce_klines_1m env) I1m (ce_clock_1m env) = Inl e
           \<or> (fetch_closed_klines (ce_klines_1m env) I1m (ce_clock_1m env) = Inr c1
              \<and> fetch_closed_klines (ce_klines_5m env) I5m (ce_clock_5m env) = Inl e)"
  shows "main_cycle env b = Exited e"
  using assms by (auto simp add: main_cycle_def Let_def)

text \<open>
  C2 says that a data-integrity failure in the klines (a gap in the open times, an empty
  or malformed answer) makes the pass skip its trading actions while the loop goes on to
  the next pass. In \<open>main\<close> the \<open>ValueError\<close> that \<open>_normalize_klines\<close> and
  \<open>_validate_sequence\<close> raise meets no handler: it leaves the loop and ends the process,
  and the pass that follows never runs. With well-formed klines the same two passes keep
  the loop running.
\<close>

theorem main_loop_exits_on_bad_klines:
  "main_loop [quiet_cycle\<lparr>ce_klines_1m := Inr gap_1m\<rparr>, quiet_cycle] bot0 = Exited ValueError
   \<and> main_loop [quiet_cycle\<lparr>ce_klines_5m := Inr (KlineList [])\<rparr>, quiet_cycle] bot0
       = Exited ValueError
   \<and> main_loop [quiet_cycle\<lparr>ce_klines_1m := Inr NotAList\<rparr>, quiet_cycle] bot0
       = Exited ValueError
   \<and> main_loop [quiet_cycle\<lparr>ce_klines_1m := Inr (KlineList [MalformedEntry])\<rparr>, quiet_cycle]
        bot0 = Exited ValueError
   \<and> main_loop [quiet_cycle, quiet_cycle] bot0 = Running bot0"
  by code_simp

end
